theory Spec2Isabelle
  imports Complex_Main "HOL-Library.Log_Nat"
begin

section \<open>JavaScript values used by the trading services\<close>

text \<open>
  The services compute with JavaScript numbers, which are 64-bit binary floating-point
  values. A number is modelled as \<open>NaN\<close>, one of the two infinities, or a finite double
  carried by its exact real value (\<open>Dbl\<close>). \<open>Fin x\<close> is the number nearest to the real
  \<open>x\<close>: rounding to nearest with ties to the even significand, to an infinity on
  overflow. It is what a numeric literal, \<open>parseFloat\<close> and every arithmetic operation
  produce: a sum or product is the exact result, rounded. Only the sign of zero is not
  represented. Strings are ASCII character lists. An object used as a dictionary is an
  association list read with \<open>map_of\<close>; its keys are taken to be distinct, and a key that
  is looked up is taken not to be the name of a member inherited from
  \<open>Object.prototype\<close> (\<open>objectPrototypeNames\<close> below): for such a name \<open>obj[key]\<close> is the
  inherited member, where \<open>map_of\<close> finds nothing. A statement below that says what
  the verdict for a pair is carries this as a hypothesis on the pair name; the statement
  on the direction of an adjustment is made under the convention.
\<close>

datatype jsnum = NaN | NInf | Dbl real | PInf

subsection \<open>Rounding a real to a double\<close>

text \<open>Rounding to the nearest integer, a tie going to the even one.\<close>

definition rhe :: "real \<Rightarrow> int" where
  "rhe y = (let f = \<lfloor>y\<rfloor>; r = y - of_int f
            in if r < 1 / 2 then f else if 1 / 2 < r then f + 1
               else if even f then f else f + 1)"

text \<open>
  The binary exponent of a positive real \<open>a\<close>: the \<open>e\<close> with \<open>2 ^ e \<le> a < 2 ^ (e + 1)\<close>,
  computed from the bit length of an integer.
\<close>

definition binExp :: "real \<Rightarrow> int" where
  "binExp a = (if 1 \<le> a then bitlen \<lfloor>a\<rfloor> - 1 else - bitlen (\<lceil>1 / a\<rceil> - 1))"

definition pow2 :: "int \<Rightarrow> real" where
  "pow2 k = (if 0 \<le> k then of_int (2 ^ nat k) else 1 / of_int (2 ^ nat (- k)))"

text \<open>
  The spacing of the doubles around \<open>a\<close>: 53 significant bits, and the fixed spacing
  \<open>2 ^ -1074\<close> of the subnormal range below \<open>2 ^ -1022\<close>, where the exponent is held at
  \<open>-1022\<close>.
\<close>

definition expo :: "real \<Rightarrow> int" where
  "expo a = max (binExp a) (- 1022)"

definition quantum :: "real \<Rightarrow> real" where
  "quantum a = pow2 (expo a - 52)"

definition nearest :: "real \<Rightarrow> real" where
  "nearest a = (let q = quantum a in of_int (rhe (a / q)) * q)"

text \<open>The bound \<open>2 ^ 1024\<close>, written out: a rounded magnitude that reaches it overflows.\<close>

definition overflowBound :: real where
  "overflowBound = 179769313486231590772930519078902473361797697894230657273430081157732675805500963132708477322407536021120113879871393357658789768814416622492847430639474124377767893424865485276302219601246094119453082952085005768838150682342462881473913110540827237163350510684586298239947245938479716304835356329624224137216"

definition Fin :: "real \<Rightarrow> jsnum" where
  "Fin x =
     (if x = 0 then Dbl 0
      else let r = nearest \<bar>x\<bar>
           in if overflowBound \<le> r then (if x < 0 then NInf else PInf)
              else Dbl (if x < 0 then - r else r))"

subsection \<open>Comparison and arithmetic\<close>

text \<open>\<open>a < b\<close>, \<open>a <= b\<close> and \<open>a > b\<close> on numbers: false whenever an operand is \<open>NaN\<close>.\<close>

fun jlt :: "jsnum \<Rightarrow> jsnum \<Rightarrow> bool" where
  "jlt NaN _ = False"
| "jlt _ NaN = False"
| "jlt _ NInf = False"
| "jlt NInf _ = True"
| "jlt PInf _ = False"
| "jlt (Dbl a) PInf = True"
| "jlt (Dbl a) (Dbl b) = (a < b)"

fun jle :: "jsnum \<Rightarrow> jsnum \<Rightarrow> bool" where
  "jle NaN _ = False"
| "jle _ NaN = False"
| "jle NInf _ = True"
| "jle _ NInf = False"
| "jle _ PInf = True"
| "jle PInf (Dbl b) = False"
| "jle (Dbl a) (Dbl b) = (a \<le> b)"

definition jgt :: "jsnum \<Rightarrow> jsnum \<Rightarrow> bool" where
  "jgt a b = jlt b a"

text \<open>Truthiness of a number: \<open>0\<close> and \<open>NaN\<close> are falsy.\<close>

fun truthy :: "jsnum \<Rightarrow> bool" where
  "truthy NaN = False"
| "truthy (Dbl x) = (x \<noteq> 0)"
| "truthy _ = True"

text \<open>\<open>a * b\<close>: the rounded product; an infinity times zero is \<open>NaN\<close>.\<close>

fun jsign :: "jsnum \<Rightarrow> int" where
  "jsign NaN = 0"
| "jsign NInf = -1"
| "jsign PInf = 1"
| "jsign (Dbl x) = (if x < 0 then -1 else if x = 0 then 0 else 1)"

fun jmul :: "jsnum \<Rightarrow> jsnum \<Rightarrow> jsnum" where
  "jmul NaN _ = NaN"
| "jmul _ NaN = NaN"
| "jmul (Dbl a) (Dbl b) = Fin (a * b)"
| "jmul a b =
     (if jsign a * jsign b = 0 then NaN
      else if jsign a * jsign b < 0 then NInf else PInf)"

text \<open>\<open>a + b\<close>: the rounded sum; opposite infinities add to \<open>NaN\<close>.\<close>

fun jadd :: "jsnum \<Rightarrow> jsnum \<Rightarrow> jsnum" where
  "jadd NaN _ = NaN"
| "jadd _ NaN = NaN"
| "jadd (Dbl a) (Dbl b) = Fin (a + b)"
| "jadd PInf NInf = NaN"
| "jadd NInf PInf = NaN"
| "jadd PInf _ = PInf"
| "jadd _ PInf = PInf"
| "jadd NInf _ = NInf"
| "jadd _ NInf = NInf"

text \<open>\<open>Math.max(a, b)\<close>: \<open>NaN\<close> if either argument is.\<close>

fun Math_max :: "jsnum \<Rightarrow> jsnum \<Rightarrow> jsnum" where
  "Math_max NaN _ = NaN"
| "Math_max _ NaN = NaN"
| "Math_max a b = (if jlt a b then b else a)"

subsection \<open>Strings\<close>

definition isDigit :: "char \<Rightarrow> bool" where
  "isDigit c = (48 \<le> (of_char c :: int) \<and> (of_char c :: int) \<le> 57)"

definition digitVal :: "char \<Rightarrow> int" where
  "digitVal c = (of_char c :: int) - 48"

definition digitChar :: "int \<Rightarrow> char" where
  "digitChar d = char_of (48 + d)"

fun digitsVal :: "int \<Rightarrow> string \<Rightarrow> int" where
  "digitsVal acc [] = acc"
| "digitsVal acc (c # cs) = digitsVal (10 * acc + digitVal c) cs"

text \<open>The decimal digits of a non-negative integer.\<close>

function showNat :: "int \<Rightarrow> string" where
  "showNat n = (if n < 10 then [digitChar n] else showNat (n div 10) @ [digitChar (n mod 10)])"
  by pat_completeness auto
termination
  by (relation "measure nat") auto

declare showNat.simps [simp del]

definition isStrWhiteSpace :: "char \<Rightarrow> bool" where
  "isStrWhiteSpace c = ((of_char c :: int) \<in> {9, 10, 11, 12, 13, 32})"

definition toUpperCase :: "string \<Rightarrow> string" where
  "toUpperCase s =
     map (\<lambda>c. if 97 \<le> (of_char c :: int) \<and> (of_char c :: int) \<le> 122
               then char_of (of_char c - (32::int)) else c) s"

definition startsWith :: "string \<Rightarrow> string \<Rightarrow> bool" where
  "startsWith s p = (take (length p) s = p)"

definition endsWith :: "string \<Rightarrow> string \<Rightarrow> bool" where
  "endsWith s p = (length p \<le> length s \<and> drop (length s - length p) s = p)"

text \<open>\<open>s.includes(p)\<close>: \<open>p\<close> occurs in \<open>s\<close> as a contiguous substring.\<close>

fun str_includes :: "string \<Rightarrow> string \<Rightarrow> bool" where
  "str_includes [] p = (p = [])"
| "str_includes (c # cs) p = (startsWith (c # cs) p \<or> str_includes cs p)"

text \<open>\<open>s.split(sep)\<close> for a one-character separator.\<close>

fun split_on :: "char \<Rightarrow> string \<Rightarrow> string list" where
  "split_on sep [] = [[]]"
| "split_on sep (c # cs) =
     (if c = sep then [] # split_on sep cs
      else (case split_on sep cs of
              [] \<Rightarrow> [[c]]
            | w # ws \<Rightarrow> (c # w) # ws))"

subsection \<open>\<open>parseFloat\<close>\<close>

text \<open>
  \<open>parseFloat\<close> skips leading white space and reads the longest prefix that is a decimal
  literal: an optional sign, then \<open>Infinity\<close>, or digits with an optional fraction, or a
  fraction alone, then an optional exponent (which needs at least one digit). With no
  such prefix the result is \<open>NaN\<close>; otherwise it is the number nearest to the value of the
  literal.
\<close>

definition pow10 :: "int \<Rightarrow> real" where
  "pow10 e = (if 0 \<le> e then 10 ^ nat e else 1 / 10 ^ nat (- e))"

definition parseExponent :: "string \<Rightarrow> int" where
  "parseExponent r =
     (case r of
        [] \<Rightarrow> 0
      | c # r1 \<Rightarrow>
          if c = CHR ''e'' \<or> c = CHR ''E'' then
            (case r1 of
               [] \<Rightarrow> 0
             | s # r2 \<Rightarrow>
                 if s = CHR ''+'' \<or> s = CHR ''-'' then
                   (if takeWhile isDigit r2 = [] then 0
                    else (if s = CHR ''-'' then -1 else 1)
                         * digitsVal 0 (takeWhile isDigit r2))
                 else digitsVal 0 (takeWhile isDigit r1))
          else 0)"

definition parseUnsigned :: "string \<Rightarrow> real option" where
  "parseUnsigned u =
     (let ip = takeWhile isDigit u;
          r1 = dropWhile isDigit u;
          fp = (case r1 of [] \<Rightarrow> [] | c # r \<Rightarrow> if c = CHR ''.'' then takeWhile isDigit r else []);
          r2 = (case r1 of [] \<Rightarrow> [] | c # r \<Rightarrow> if c = CHR ''.'' then dropWhile isDigit r else r1)
      in if ip = [] \<and> fp = [] then None
         else Some (real_of_int (digitsVal 0 (ip @ fp)) * pow10 (parseExponent r2 - int (length fp))))"

definition parseFloat :: "string \<Rightarrow> jsnum" where
  "parseFloat s =
     (let t = dropWhile isStrWhiteSpace s;
          neg = (case t of [] \<Rightarrow> False | c # _ \<Rightarrow> c = CHR ''-'');
          u = (case t of [] \<Rightarrow> [] | c # r \<Rightarrow> if c = CHR ''+'' \<or> c = CHR ''-'' then r else t)
      in if startsWith u ''Infinity'' then (if neg then NInf else PInf)
         else (case parseUnsigned u of
                 None \<Rightarrow> NaN
               | Some x \<Rightarrow> Fin (if neg then - x else x)))"

subsection \<open>\<open>Number.prototype.toString\<close> and \<open>toFixed\<close>\<close>

text \<open>
  The decimal rendering of a positive finite number \<open>x\<close> uses the digits \<open>s\<close>, their count
  \<open>k\<close> and the position \<open>n\<close> of the decimal point such that \<open>s * 10 ^ (n - k)\<close> rounds to
  \<open>x\<close>, with \<open>k\<close> as small as possible and, among the candidates, \<open>s\<close> closest to \<open>x\<close>.
  Seventeen digits always suffice for a double. The notation is plain for
  \<open>-6 < n \<le> 21\<close> and has an exponent otherwise.
\<close>

fun leadingZeros :: "nat \<Rightarrow> real \<Rightarrow> int" where
  "leadingZeros 0 x = 0"
| "leadingZeros (Suc fuel) x = (if 1 \<le> x * 10 then 0 else 1 + leadingZeros fuel (x * 10))"

text \<open>The \<open>n\<close> with \<open>10 ^ (n - 1) \<le> x < 10 ^ n\<close>, for a positive double \<open>x\<close>.\<close>

definition decimalExponent :: "real \<Rightarrow> int" where
  "decimalExponent x =
     (if 1 \<le> x then int (length (showNat \<lfloor>x\<rfloor>)) else - leadingZeros 330 x)"

fun shortestDigits :: "nat \<Rightarrow> int \<Rightarrow> int \<Rightarrow> real \<Rightarrow> int \<times> int" where
  "shortestDigits 0 k n x = (rhe (x / pow10 (n - k)), k)"
| "shortestDigits (Suc fuel) k n x =
     (let y = x / pow10 (n - k);
          lo = \<lfloor>y\<rfloor>;
          hi = lo + 1;
          okLo = (Fin (of_int lo * pow10 (n - k)) = Dbl x);
          okHi = (Fin (of_int hi * pow10 (n - k)) = Dbl x)
      in if okLo \<and> (\<not> okHi \<or> y - of_int lo < of_int hi - y
                    \<or> (y - of_int lo = of_int hi - y \<and> even lo))
         then (lo, k)
         else if okHi then (hi, k)
         else shortestDigits fuel (k + 1) n x)"

definition toStringPos :: "real \<Rightarrow> string" where
  "toStringPos x =
     (let n0 = decimalExponent x;
          sk = shortestDigits 16 1 n0 x;
          ds = showNat (fst sk);
          s = rev (dropWhile (\<lambda>c. c = CHR ''0'') (rev ds));
          k = int (length s);
          n = n0 + (int (length ds) - snd sk)
      in if k \<le> n \<and> n \<le> 21 then s @ replicate (nat (n - k)) (CHR ''0'')
         else if 0 < n \<and> n \<le> 21 then take (nat n) s @ ''.'' @ drop (nat n) s
         else if - 6 < n \<and> n \<le> 0 then ''0.'' @ replicate (nat (- n)) (CHR ''0'') @ s
         else (if length s = 1 then s else take 1 s @ ''.'' @ drop 1 s)
              @ ''e'' @ (if n - 1 < 0 then ''-'' else ''+'') @ showNat \<bar>n - 1\<bar>)"

fun toString :: "jsnum \<Rightarrow> string" where
  "toString NaN = ''NaN''"
| "toString PInf = ''Infinity''"
| "toString NInf = ''-Infinity''"
| "toString (Dbl x) =
     (if x = 0 then ''0'' else if x < 0 then ''-'' @ toStringPos (- x) else toStringPos x)"

text \<open>
  \<open>x.toFixed(f)\<close>: the integer \<open>n\<close> nearest to \<open>x * 10 ^ f\<close> (the larger one on a tie),
  written with \<open>f\<close> digits after the point; \<open>x\<close> is the exact value of the double.
\<close>

definition toFixedPos :: "real \<Rightarrow> nat \<Rightarrow> string" where
  "toFixedPos x f =
     (if 10 ^ 21 \<le> x then toStringPos x
      else (let m0 = showNat \<lfloor>x * 10 ^ f + 1 / 2\<rfloor>;
                m = (if f \<noteq> 0 \<and> length m0 \<le> f
                     then replicate (f + 1 - length m0) (CHR ''0'') @ m0 else m0)
            in if f = 0 then m
               else take (length m - f) m @ ''.'' @ drop (length m - f) m))"

fun toFixed :: "jsnum \<Rightarrow> nat \<Rightarrow> string" where
  "toFixed (Dbl x) f = (if x < 0 then ''-'' @ toFixedPos (- x) f else toFixedPos x f)"
| "toFixed v f = toString v"

subsection \<open>The operator \<open>||\<close> on optional values\<close>

text \<open>
  \<open>table[key] || d\<close>: the default is taken when the key is absent and also when the
  stored value is falsy (\<open>0\<close> or \<open>NaN\<close> for a number, the empty string for a string).
\<close>

fun num_or :: "jsnum option \<Rightarrow> jsnum \<Rightarrow> jsnum" where
  "num_or None d = d"
| "num_or (Some x) d = (if truthy x then x else d)"

fun str_or :: "string option \<Rightarrow> string \<Rightarrow> string" where
  "str_or None d = d"
| "str_or (Some s) d = (if s \<noteq> [] then s else d)"

section \<open>The trade validator (\<open>tradeValidator.ts\<close>)\<close>


datatype Side = Buy | Sell

record TradeRequest =
  pair :: string
  side :: Side
  amount :: jsnum
  price :: "jsnum option"

record TradeValidationResult =
  isValid :: bool
  error :: "string option"
  adjustedAmount :: "jsnum option"
  requiredBalance :: "jsnum option"
  availableBalance :: "jsnum option"

record TradeValidator =
  balances :: "(string \<times> string) list"
  minOrderSizes :: "(string \<times> jsnum) list"
  maxOrderSizes :: "(string \<times> jsnum) list"
  cryptoPrices :: "(string \<times> jsnum) list"

definition defaultCryptoPrices :: "(string \<times> jsnum) list" where
  "defaultCryptoPrices =
     [(''XBT'', Fin 45000), (''XXBT'', Fin 45000),
      (''ETH'', Fin 2500), (''XETH'', Fin 2500),
      (''XRP'', Fin (6 / 10)), (''XXRP'', Fin (6 / 10)),
      (''LTC'', Fin 100), (''XLTC'', Fin 100),
      (''ADA'', Fin (5 / 10)), (''DOT'', Fin 7),
      (''USD'', Fin 1), (''ZUSD'', Fin 1)]"

definition minOrderSizeTable :: "(string \<times> jsnum) list" where
  "minOrderSizeTable =
     [(''BTC/USD'', Fin (1 / 10000)),
      (''ETH/USD'', Fin (1 / 1000)),
      (''XRP/USD'', Fin 1),
      (''LTC/USD'', Fin (1 / 100)),
      (''ADA/USD'', Fin 10),
      (''DOT/USD'', Fin (1 / 10)),
      (''XBTUSD'', Fin (1 / 10000)),
      (''ETHUSD'', Fin (1 / 1000)),
      (''XRPUSD'', Fin 1),
      (''LTCUSD'', Fin (1 / 100)),
      (''ADAUSD'', Fin 10),
      (''DOTUSD'', Fin (1 / 10))]"

definition maxOrderSizeTable :: "(string \<times> jsnum) list" where
  "maxOrderSizeTable =
     map (\<lambda>p. (p, Fin (9 / 10)))
       [''BTC/USD'', ''ETH/USD'', ''XRP/USD'', ''LTC/USD'', ''ADA/USD'', ''DOT/USD'',
        ''XBTUSD'', ''ETHUSD'', ''XRPUSD'', ''LTCUSD'', ''ADAUSD'', ''DOTUSD'']"

text \<open>The constructor: the price table is optional and defaults to the fixed one.\<close>

definition new_TradeValidator ::
  "(string \<times> string) list \<Rightarrow> (string \<times> jsnum) list option \<Rightarrow> TradeValidator" where
  "new_TradeValidator bals prices =
     \<lparr>balances = bals,
      minOrderSizes = minOrderSizeTable,
      maxOrderSizes = maxOrderSizeTable,
      cryptoPrices = (case prices of Some p \<Rightarrow> p | None \<Rightarrow> defaultCryptoPrices)\<rparr>"

definition normalizations :: "(string \<times> string) list" where
  "normalizations =
     [(''BTC'', ''XXBT''), (''BITCOIN'', ''XXBT''),
      (''ETH'', ''XETH''), (''ETHEREUM'', ''XETH''),
      (''XRP'', ''XXRP''), (''RIPPLE'', ''XXRP''),
      (''LTC'', ''XLTC''), (''LITECOIN'', ''XLTC''),
      (''USD'', ''ZUSD'')]"

definition normalizeCurrency :: "string \<Rightarrow> string" where
  "normalizeCurrency currency =
     str_or (map_of normalizations (toUpperCase currency)) (toUpperCase currency)"

text \<open>
  \<open>parsePair\<close>. A pair that contains \<open>/\<close> splits into at least two parts, of which the
  first two are used, so the last case of the destructuring below does not arise.
\<close>

definition parsePair :: "string \<Rightarrow> string \<times> string" where
  "parsePair p =
     (if str_includes p ''/'' then
        (case split_on (CHR ''/'') p of
           base # quote # _ \<Rightarrow> (normalizeCurrency base, normalizeCurrency quote)
         | _ \<Rightarrow> (normalizeCurrency p, normalizeCurrency []))
      else if p = ''XBTUSD'' then (''XXBT'', ''ZUSD'')
      else if p = ''ETHUSD'' then (''XETH'', ''ZUSD'')
      else if p = ''XRPUSD'' then (''XXRP'', ''ZUSD'')
      else if p = ''LTCUSD'' then (''XLTC'', ''ZUSD'')
      else if p = ''ADAUSD'' then (''ADA'', ''ZUSD'')
      else if p = ''DOTUSD'' then (''DOT'', ''ZUSD'')
      else if endsWith p ''USD'' then (normalizeCurrency (take (length p - 3) p), ''ZUSD'')
      else (p, ''ZUSD''))"


definition getEstimatedPrice :: "TradeValidator \<Rightarrow> string \<Rightarrow> jsnum" where
  "getEstimatedPrice v currency =
     num_or (map_of (cryptoPrices v) (normalizeCurrency currency))
       (num_or (map_of (cryptoPrices v) currency) (Fin 1))"

text \<open>
  \<open>getTotalPortfolioValueInUsd\<close>: the loop over \<open>Object.entries(this.balances)\<close>, with the
  running total as accumulator.
\<close>

definition portfolioStep :: "TradeValidator \<Rightarrow> jsnum \<Rightarrow> string \<times> string \<Rightarrow> jsnum" where
  "portfolioStep v totalValue entry =
     (let numBalance = parseFloat (snd entry)
      in if jgt numBalance (Fin 0)
         then jadd totalValue (jmul numBalance (num_or (map_of (cryptoPrices v) (fst entry)) (Fin 1)))
         else totalValue)"

definition getTotalPortfolioValueInUsd :: "TradeValidator \<Rightarrow> jsnum" where
  "getTotalPortfolioValueInUsd v = foldl (portfolioStep v) (Fin 0) (balances v)"

text \<open>The estimated cost of a buy: the given price when it is truthy, else the table's.\<close>

definition estimatedCost :: "TradeValidator \<Rightarrow> TradeRequest \<Rightarrow> jsnum" where
  "estimatedCost v trade =
     (case price trade of
        Some p \<Rightarrow>
          if truthy p then jmul (amount trade) p
          else jmul (amount trade) (getEstimatedPrice v (fst (parsePair (pair trade))))
      | None \<Rightarrow> jmul (amount trade) (getEstimatedPrice v (fst (parsePair (pair trade)))))"

definition verdict ::
  "bool \<Rightarrow> string option \<Rightarrow> jsnum option \<Rightarrow> jsnum option \<Rightarrow> jsnum option \<Rightarrow> TradeValidationResult"
  where
  "verdict ok msg adj req avail =
     \<lparr>isValid = ok, error = msg, adjustedAmount = adj,
      requiredBalance = req, availableBalance = avail\<rparr>"

definition validateTrade :: "TradeValidator \<Rightarrow> TradeRequest \<Rightarrow> TradeValidationResult" where
  "validateTrade v trade =
     (if jle (amount trade) (Fin 0) then
        verdict False (Some ''Trade amount must be positive'') None None None
      else
        let minSize = num_or (map_of (minOrderSizes v) (pair trade)) (Fin (1 / 10000)) in
        if jlt (amount trade) minSize then
          verdict False
            (Some (''Order size '' @ toString (amount trade) @ '' is below minimum ''
                   @ toString minSize @ '' for '' @ pair trade))
            (Some minSize) None None
        else
          let baseCurrency = fst (parsePair (pair trade)) in
          if side trade = Buy then
            let cost = estimatedCost v trade;
                totalUsdValue = getTotalPortfolioValueInUsd v in
            if jlt totalUsdValue cost then
              verdict False
                (Some (''Insufficient portfolio value. Required: $'' @ toFixed cost 2
                       @ '', Available: $'' @ toFixed totalUsdValue 2))
                None (Some cost) (Some totalUsdValue)
            else
              let usdBalance =
                    parseFloat (str_or (map_of (balances v) ''ZUSD'')
                                  (str_or (map_of (balances v) ''USD'') ''0'')) in
              if jlt usdBalance cost then
                verdict True
                  (Some (''Direct USD balance insufficient ($'' @ toFixed usdBalance 2
                         @ ''). May need to convert crypto assets.''))
                  None None None
              else verdict True None None None None
          else
            let baseBalance = parseFloat (str_or (map_of (balances v) baseCurrency) ''0'') in
            if jlt baseBalance (amount trade) then
              let adjusted = Math_max (jmul baseBalance (Fin (95 / 100))) minSize in
              if jlt adjusted minSize then
                verdict False
                  (Some (''Insufficient '' @ baseCurrency @ '' balance. Required: ''
                         @ toString (amount trade) @ '', Available: '' @ toString baseBalance))
                  None (Some (amount trade)) (Some baseBalance)
              else
                verdict False
                  (Some (''Insufficient '' @ baseCurrency @ '' balance. Adjusting amount to ''
                         @ toFixed adjusted 6))
                  (Some adjusted) (Some (amount trade)) (Some baseBalance)
            else verdict True None None None None)"


section \<open>The exchange service (\<open>krakenService.ts\<close>)\<close>

text \<open>
  The service talks to three things outside the program: the clock (\<open>Date.now()\<close>), the
  price feed (\<open>fetch\<close> of the price URL followed by \<open>response.json()\<close>) and the remote
  gateway (\<open>supabase.functions.invoke\<close>, with the actions \<open>getBalance\<close> and \<open>placeOrder\<close>).
  Every use of one of them is recorded, in order, in a list of calls; what it answers is
  given by an environment, as a function of the calls made so far. The methods take the
  service's fields and the calls made so far and return both updated. A thrown
  exception is the left summand of a result. \<open>logError\<close> writes to the console only and is
  left out.
\<close>

datatype OrderType = Market | Limit

record KrakenOrderRequest =
  o_pair :: string
  o_type :: Side
  ordertype :: OrderType
  volume :: string
  o_price :: "string option"

record OrderResult =
  descr_order :: string
  txid :: "string list"

record KrakenOrderResponse =
  resp_error :: "string list option"
  resp_result :: "OrderResult option"

record BalanceResponse =
  bal_error :: "string list option"
  bal_result :: "(string \<times> string) list option"

text \<open>A thrown value: an \<open>Error\<close> object with its message, or some other value.\<close>

datatype thrown = JsError string | NonError

text \<open>
  What \<open>supabase.functions.invoke\<close> gives: the promise rejects, or it resolves to
  \<open>{data, error}\<close>. The \<open>error\<close> is absent (\<open>None\<close>) or an object with an optional message;
  \<open>data\<close> may be absent.
\<close>

datatype 'd invoked = Rejects thrown | Resolves "string option option" "'d option"

text \<open>
  The JSON of the price feed: for each coin the field \<open>usd\<close>, when the coin's entry has
  one. \<open>FeedFails\<close> stands for every way in which the \<open>try\<close> block throws before the
  table is assigned.
\<close>

record PriceFeedData =
  bitcoin :: "jsnum option"
  ethereum :: "jsnum option"
  ripple :: "jsnum option"
  litecoin :: "jsnum option"
  cardano :: "jsnum option"
  polkadot :: "jsnum option"

datatype feed_outcome = FeedFails | FeedData PriceFeedData

datatype call =
    ReadClock
  | FetchPrices
  | InvokeGetBalance string string
  | InvokePlaceOrder string string KrakenOrderRequest

record environment =
  clock :: "call list \<Rightarrow> int"
  priceFeed :: "call list \<Rightarrow> feed_outcome"
  getBalanceReply :: "call list \<Rightarrow> BalanceResponse invoked"
  placeOrderReply :: "call list \<Rightarrow> KrakenOrderResponse invoked"

record KrakenService =
  apiKey :: string
  apiSecret :: string
  cachedBalances :: "(string \<times> string) list"
  lastBalanceUpdate :: int
  balanceUpdateInterval :: int
  svcCryptoPrices :: "(string \<times> jsnum) list"
  lastPriceUpdate :: int
  priceUpdateInterval :: int

type_synonym world = "KrakenService \<times> call list"

text \<open>
  The field initialisers of the class. The constructor also starts
  \<open>initializeCryptoPrices\<close> without waiting for it; here that is a call of its own, and
  every method runs to completion before the next one starts.
\<close>

definition new_KrakenService :: "string \<Rightarrow> string \<Rightarrow> KrakenService" where
  "new_KrakenService k s =
     \<lparr>apiKey = k, apiSecret = s, cachedBalances = [], lastBalanceUpdate = 0,
      balanceUpdateInterval = 30000, svcCryptoPrices = [], lastPriceUpdate = 0,
      priceUpdateInterval = 60000\<rparr>"

definition feedPrices :: "PriceFeedData \<Rightarrow> (string \<times> jsnum) list" where
  "feedPrices d =
     [(''XBT'', num_or (bitcoin d) (Fin 45000)), (''XXBT'', num_or (bitcoin d) (Fin 45000)),
      (''ETH'', num_or (ethereum d) (Fin 2500)), (''XETH'', num_or (ethereum d) (Fin 2500)),
      (''XRP'', num_or (ripple d) (Fin (6 / 10))), (''XXRP'', num_or (ripple d) (Fin (6 / 10))),
      (''LTC'', num_or (litecoin d) (Fin 100)), (''XLTC'', num_or (litecoin d) (Fin 100)),
      (''ADA'', num_or (cardano d) (Fin (5 / 10))), (''DOT'', num_or (polkadot d) (Fin 7)),
      (''USD'', Fin 1), (''ZUSD'', Fin 1)]"

definition fallbackPrices :: "(string \<times> jsnum) list" where
  "fallbackPrices =
     [(''XBT'', Fin 45000), (''XXBT'', Fin 45000),
      (''ETH'', Fin 2500), (''XETH'', Fin 2500),
      (''XRP'', Fin (6 / 10)), (''XXRP'', Fin (6 / 10)),
      (''LTC'', Fin 100), (''XLTC'', Fin 100),
      (''ADA'', Fin (5 / 10)), (''DOT'', Fin 7),
      (''USD'', Fin 1), (''ZUSD'', Fin 1)]"

text \<open>
  \<open>initializeCryptoPrices\<close>: the time stamp is written in the \<open>try\<close> block, after the
  table; the \<open>catch\<close> block assigns the fallback table only.
\<close>

definition initializeCryptoPrices :: "environment \<Rightarrow> world \<Rightarrow> world" where
  "initializeCryptoPrices env w =
     (let svc = fst w; calls = snd w @ [FetchPrices]
      in case priceFeed env calls of
           FeedData d \<Rightarrow>
             (svc\<lparr>svcCryptoPrices := feedPrices d, lastPriceUpdate := clock env calls\<rparr>,
              calls @ [ReadClock])
         | FeedFails \<Rightarrow> (svc\<lparr>svcCryptoPrices := fallbackPrices\<rparr>, calls))"

definition updateCryptoPricesIfNeeded :: "environment \<Rightarrow> world \<Rightarrow> world" where
  "updateCryptoPricesIfNeeded env w =
     (let now = clock env (snd w); w1 = (fst w, snd w @ [ReadClock])
      in if now - lastPriceUpdate (fst w) > priceUpdateInterval (fst w)
         then initializeCryptoPrices env w1 else w1)"

text \<open>The error of a failed balance request, from the first string the gateway reports.\<close>

definition balanceErrorMessage :: "string \<Rightarrow> string" where
  "balanceErrorMessage krakenError =
     (if str_includes krakenError ''Invalid key'' then ''Invalid API key - check your credentials''
      else if str_includes krakenError ''Permission denied'' then ''API key lacks required permissions''
      else if str_includes krakenError ''Invalid signature''
        then ''Invalid API signature - check your secret key''
      else if str_includes krakenError ''Invalid nonce''
        then ''Invalid nonce - time synchronization issue''
      else ''Kraken Error: '' @ krakenError)"

definition getAccountBalance ::
  "environment \<Rightarrow> world \<Rightarrow> (thrown + (string \<times> string) list) \<times> world" where
  "getAccountBalance env w =
     (let svc = fst w; now = clock env (snd w); calls = snd w @ [ReadClock]
      in if now - lastBalanceUpdate svc < balanceUpdateInterval svc \<and> cachedBalances svc \<noteq> []
         then (Inr (cachedBalances svc), (svc, calls))
         else
           let calls1 = calls @ [InvokeGetBalance (apiKey svc) (apiSecret svc)]
           in case getBalanceReply env calls1 of
                Rejects e \<Rightarrow> (Inl e, (svc, calls1))
              | Resolves (Some msg) _ \<Rightarrow>
                  (Inl (JsError (''Function invocation failed: '' @ str_or msg ''Unknown error'')),
                   (svc, calls1))
              | Resolves None None \<Rightarrow>
                  (Inl (JsError ''No balance data received from Kraken''), (svc, calls1))
              | Resolves None (Some d) \<Rightarrow>
                  (case bal_error d of
                     Some (krakenError # _) \<Rightarrow>
                       (Inl (JsError (balanceErrorMessage krakenError)), (svc, calls1))
                   | _ \<Rightarrow>
                       (case bal_result d of
                          None \<Rightarrow>
                            (Inl (JsError ''No balance data received from Kraken''), (svc, calls1))
                        | Some res \<Rightarrow>
                            (Inr res,
                             (svc\<lparr>cachedBalances := res, lastBalanceUpdate := now\<rparr>, calls1)))))"

text \<open>The error of a refused order, from the first string the gateway reports.\<close>

definition orderErrorMessage :: "string \<Rightarrow> string" where
  "orderErrorMessage krakenError =
     (if str_includes krakenError ''Insufficient funds'' then ''Insufficient funds for this trade''
      else if str_includes krakenError ''Invalid arguments'' then ''Invalid order parameters''
      else if str_includes krakenError ''Order minimum not met''
        then ''Order size below minimum requirement''
      else if str_includes krakenError ''Unknown asset pair'' then ''Invalid trading pair''
      else if str_includes krakenError ''Invalid price'' then ''Invalid price specified''
      else krakenError)"

definition placeOrder ::
  "environment \<Rightarrow> world \<Rightarrow> KrakenOrderRequest \<Rightarrow> (thrown + KrakenOrderResponse) \<times> world" where
  "placeOrder env w order =
     (let svc = fst w;
          calls = snd w @ [InvokePlaceOrder (apiKey svc) (apiSecret svc) order]
      in case placeOrderReply env calls of
           Rejects e \<Rightarrow> (Inl e, (svc, calls))
         | Resolves (Some msg) _ \<Rightarrow>
             (Inl (JsError (''Function invocation failed: '' @ str_or msg ''Unknown error'')),
              (svc, calls))
         | Resolves None None \<Rightarrow>
             (Inl (JsError ''No order result received from Kraken''), (svc, calls))
         | Resolves None (Some d) \<Rightarrow>
             (case resp_error d of
                Some (krakenError # _) \<Rightarrow>
                  (Inl (JsError (orderErrorMessage krakenError)), (svc, calls))
              | _ \<Rightarrow>
                  (case resp_result d of
                     None \<Rightarrow> (Inl (JsError ''No order result received from Kraken''), (svc, calls))
                   | Some _ \<Rightarrow> (Inr d, (svc\<lparr>lastBalanceUpdate := 0\<rparr>, calls)))))"

text \<open>\<open>error instanceof Error ? error.message : fallback\<close>.\<close>

fun messageOf :: "thrown \<Rightarrow> string \<Rightarrow> string" where
  "messageOf (JsError m) fallback = m"
| "messageOf NonError fallback = fallback"

definition failure :: "string \<Rightarrow> KrakenOrderResponse" where
  "failure msg = \<lparr>resp_error = Some [msg], resp_result = None\<rparr>"

definition validationPair :: "string \<Rightarrow> string" where
  "validationPair p =
     (if p = ''XRPUSD'' then ''XRP/USD''
      else if p = ''ETHUSD'' then ''ETH/USD''
      else if p = ''XBTUSD'' then ''BTC/USD''
      else p)"

text \<open>The request handed to the validator: a fresh object built from the order's fields.\<close>

definition tradeRequestOf :: "KrakenOrderRequest \<Rightarrow> jsnum \<Rightarrow> TradeRequest" where
  "tradeRequestOf order amt =
     \<lparr>pair = validationPair (o_pair order), side = o_type order, amount = amt,
      price = (case o_price order of
                 Some s \<Rightarrow> if s \<noteq> [] then Some (parseFloat s) else None
               | None \<Rightarrow> None)\<rparr>"

text \<open>
  \<open>return await this.placeOrder(order)\<close> inside the \<open>try\<close> of \<open>placeValidatedOrder\<close>: an
  exception of \<open>placeOrder\<close> is caught and becomes an error response.
\<close>

definition submitOrder ::
  "environment \<Rightarrow> world \<Rightarrow> KrakenOrderRequest \<Rightarrow> KrakenOrderResponse \<times> KrakenOrderRequest \<times> world"
  where
  "submitOrder env w order =
     (case placeOrder env w order of
        (Inl e, w') \<Rightarrow> (failure (messageOf e ''Order placement failed''), order, w')
      | (Inr d, w') \<Rightarrow> (d, order, w'))"

text \<open>
  \<open>placeValidatedOrder\<close>. The order is an object of the caller; the second component of
  the result is that object as the call leaves it.
\<close>

definition placeValidatedOrder ::
  "environment \<Rightarrow> world \<Rightarrow> KrakenOrderRequest \<Rightarrow> KrakenOrderResponse \<times> KrakenOrderRequest \<times> world"
  where
  "placeValidatedOrder env w order =
     (case getAccountBalance env (updateCryptoPricesIfNeeded env w) of
        (Inl e, w2) \<Rightarrow> (failure (messageOf e ''Order placement failed''), order, w2)
      | (Inr bals, w2) \<Rightarrow>
          let validator = new_TradeValidator bals (Some (svcCryptoPrices (fst w2)));
              validation = validateTrade validator (tradeRequestOf order (parseFloat (volume order)))
          in if \<not> isValid validation then
               (case adjustedAmount validation of
                  None \<Rightarrow>
                    (failure (str_or (error validation) ''Trade validation failed''), order, w2)
                | Some adj \<Rightarrow>
                    if truthy adj \<and> jgt adj (Fin 0) then
                      let order1 = order\<lparr>volume := toString adj\<rparr>;
                          revalidation = validateTrade validator (tradeRequestOf order1 adj)
                      in if \<not> isValid revalidation
                         then (failure (str_or (error validation) ''Trade validation failed''),
                               order1, w2)
                         else submitOrder env w2 order1
                    else (failure (str_or (error validation) ''Trade validation failed''),
                          order, w2))
             else submitOrder env w2 order)"

text \<open>Which recorded calls are requests to the gateway or to the feed.\<close>

fun isPlaceOrderCall :: "call \<Rightarrow> bool" where
  "isPlaceOrderCall (InvokePlaceOrder _ _ _) = True"
| "isPlaceOrderCall _ = False"

fun isGetBalanceCall :: "call \<Rightarrow> bool" where
  "isGetBalanceCall (InvokeGetBalance _ _) = True"
| "isGetBalanceCall _ = False"

fun isFetchPricesCall :: "call \<Rightarrow> bool" where
  "isFetchPricesCall FetchPrices = True"
| "isFetchPricesCall _ = False"

text \<open>
  An environment whose answers do not depend on the calls made before: a fixed clock
  reading, feed outcome and gateway replies. The scenarios below are run in such
  environments.
\<close>

definition fixedEnv ::
  "int \<Rightarrow> feed_outcome \<Rightarrow> BalanceResponse invoked \<Rightarrow> KrakenOrderResponse invoked \<Rightarrow> environment"
  where
  "fixedEnv t f b p =
     \<lparr>clock = (\<lambda>_. t), priceFeed = (\<lambda>_. f), getBalanceReply = (\<lambda>_. b),
      placeOrderReply = (\<lambda>_. p)\<rparr>"

definition balancesReply :: "(string \<times> string) list \<Rightarrow> BalanceResponse invoked" where
  "balancesReply bals = Resolves None (Some \<lparr>bal_error = None, bal_result = Some bals\<rparr>)"

definition orderAccepted :: "KrakenOrderResponse invoked" where
  "orderAccepted =
     Resolves None
       (Some \<lparr>resp_error = None,
              resp_result = Some \<lparr>descr_order = ''order'', txid = [''TX1'']\<rparr>\<rparr>)"

definition orderRefused :: "string list \<Rightarrow> KrakenOrderResponse invoked" where
  "orderRefused errs = Resolves None (Some \<lparr>resp_error = Some errs, resp_result = None\<rparr>)"




section \<open>Rounding is monotone and leaves doubles unchanged\<close>






















lemma Fin_alt:
  "Fin x =
     (if x = 0 then Dbl 0
      else if overflowBound \<le> nearest \<bar>x\<bar> then (if x < 0 then NInf else PInf)
      else Dbl (if x < 0 then - nearest \<bar>x\<bar> else nearest \<bar>x\<bar>))"
  by (simp add: Fin_def Let_def)

lemma Fin_0 [simp]: "Fin 0 = Dbl 0"
  by (simp add: Fin_def)



section \<open>Facts about numbers and tables\<close>

lemma Fin_not_NaN [simp]: "Fin x \<noteq> NaN"
  by (simp add: Fin_alt)























section \<open>Properties of \<open>validateTrade\<close>\<close>










subsection \<open>The portfolio check of a buy\<close>








section \<open>Properties of the exchange service\<close>

subsection \<open>The calls each method makes\<close>

lemma initializeCryptoPrices_calls:
  "\<exists>new. snd (initializeCryptoPrices env w) = snd w @ new \<and>
     filter isPlaceOrderCall new = [] \<and> filter isGetBalanceCall new = []"
  by (cases "priceFeed env (snd w @ [FetchPrices])")
     (simp_all add: initializeCryptoPrices_def Let_def)

lemma updateCryptoPricesIfNeeded_calls:
  "\<exists>new. snd (updateCryptoPricesIfNeeded env w) = snd w @ new \<and>
     filter isPlaceOrderCall new = [] \<and> filter isGetBalanceCall new = []"
proof (cases "clock env (snd w) - lastPriceUpdate (fst w) > priceUpdateInterval (fst w)")
  case True
  obtain new where "snd (initializeCryptoPrices env (fst w, snd w @ [ReadClock]))
      = (snd w @ [ReadClock]) @ new" "filter isPlaceOrderCall new = []"
      "filter isGetBalanceCall new = []"
    using initializeCryptoPrices_calls [of env "(fst w, snd w @ [ReadClock])"] by auto
  with True show ?thesis
    by (intro exI[of _ "ReadClock # new"]) (simp add: updateCryptoPricesIfNeeded_def Let_def)
next
  case False
  then show ?thesis
    by (intro exI[of _ "[ReadClock]"]) (simp add: updateCryptoPricesIfNeeded_def Let_def)
qed

lemma getAccountBalance_calls:
  "\<exists>new. snd (snd (getAccountBalance env w)) = snd w @ new \<and>
     filter isPlaceOrderCall new = []"
  by (auto simp add: getAccountBalance_def Let_def
      split: invoked.splits option.splits list.splits)

lemma placeOrder_calls:
  "snd (snd (placeOrder env w order)) =
     snd w @ [InvokePlaceOrder (apiKey (fst w)) (apiSecret (fst w)) order]"
  by (auto simp add: placeOrder_def Let_def
      split: invoked.splits option.splits list.splits)

lemma submitOrder_calls:
  "snd (snd (snd (submitOrder env w order))) =
     snd w @ [InvokePlaceOrder (apiKey (fst w)) (apiSecret (fst w)) order]"
  using placeOrder_calls [of env w order]
  by (auto simp add: submitOrder_def split: prod.splits sum.splits)


lemma tradeRequestOf_volume [simp]:
  "tradeRequestOf (order\<lparr>volume := x\<rparr>) amt = tradeRequestOf order amt"
  by (simp add: tradeRequestOf_def)

lemma submitOrder_order:
  "submitOrder env w order = (resp, order', w') \<Longrightarrow> order' = order"
  by (auto simp add: submitOrder_def split: prod.splits sum.splits)

subsection \<open>The order executor\<close>

text \<open>
  Claim C4. In every invocation of \<open>placeValidatedOrder\<close> the gateway's \<open>placeOrder\<close>
  action is requested at most once: the calls made by the invocation contain at most one
  order submission. When the first validation fails with an adjusted amount and the
  validation of the adjusted amount fails too, the invocation ends there with the
  validation error as its response: nothing is submitted, and no further adjustment is
  tried.
\<close>

theorem placeValidatedOrder_single_submission:
  assumes run: "placeValidatedOrder env w order = (resp, order', w')"
  shows "\<exists>new. snd w' = snd w @ new \<and> length (filter isPlaceOrderCall new) \<le> 1 \<and>
     (\<forall>bals w2 adj.
        getAccountBalance env (updateCryptoPricesIfNeeded env w) = (Inr bals, w2) \<and>
        \<not> isValid (validateTrade (new_TradeValidator bals (Some (svcCryptoPrices (fst w2))))
                     (tradeRequestOf order (parseFloat (volume order)))) \<and>
        adjustedAmount (validateTrade (new_TradeValidator bals (Some (svcCryptoPrices (fst w2))))
                     (tradeRequestOf order (parseFloat (volume order)))) = Some adj \<and>
        \<not> isValid (validateTrade (new_TradeValidator bals (Some (svcCryptoPrices (fst w2))))
                     (tradeRequestOf order adj))
        \<longrightarrow> resp = failure (str_or (error (validateTrade
                       (new_TradeValidator bals (Some (svcCryptoPrices (fst w2))))
                       (tradeRequestOf order (parseFloat (volume order)))))
                     ''Trade validation failed'') \<and>
            w' = w2 \<and> filter isPlaceOrderCall new = [])"
proof -
  let ?w1 = "updateCryptoPricesIfNeeded env w"
  obtain r w2 where gb: "getAccountBalance env ?w1 = (r, w2)"
    by (cases "getAccountBalance env ?w1") auto
  obtain n1 where n1: "snd ?w1 = snd w @ n1" "filter isPlaceOrderCall n1 = []"
    using updateCryptoPricesIfNeeded_calls [of env w] by auto
  obtain n2 where n2: "snd w2 = snd ?w1 @ n2" "filter isPlaceOrderCall n2 = []"
    using getAccountBalance_calls [of env ?w1] gb by auto
  have pre: "snd w2 = snd w @ (n1 @ n2)" "filter isPlaceOrderCall (n1 @ n2) = []"
    using n1 n2 by simp_all
  show ?thesis
  proof (cases r)
    case (Inl e)
    with run gb have "w' = w2"
      by (simp add: placeValidatedOrder_def)
    with pre gb Inl show ?thesis
      by (intro exI[of _ "n1 @ n2"]) simp
  next
    case (Inr bals)
    let ?v = "new_TradeValidator bals (Some (svcCryptoPrices (fst w2)))"
    let ?val = "validateTrade ?v (tradeRequestOf order (parseFloat (volume order)))"
    let ?fail = "failure (str_or (error ?val) ''Trade validation failed'')"
    consider (stop) "w' = w2" "resp = ?fail"
      | (submit) o1 where "submitOrder env w2 o1 = (resp, order', w')"
          "isValid ?val \<or> (\<exists>adj. adjustedAmount ?val = Some adj \<and>
              isValid (validateTrade ?v (tradeRequestOf order adj)))"
      using run gb Inr
      by (auto simp add: placeValidatedOrder_def Let_def split: option.splits if_splits)
    then show ?thesis
    proof cases
      case stop
      with pre gb Inr show ?thesis
        by (intro exI[of _ "n1 @ n2"]) simp
    next
      case submit
      from submit(1) have "snd w' = snd w2 @ [InvokePlaceOrder (apiKey (fst w2)) (apiSecret (fst w2)) o1]"
        using submitOrder_calls [of env w2 o1] by (metis snd_conv)
      with pre submit(2) gb Inr show ?thesis
        by (intro exI[of _ "n1 @ n2 @ [InvokePlaceOrder (apiKey (fst w2)) (apiSecret (fst w2)) o1]"])
           auto
    qed
  qed
qed

theorem placeValidatedOrder_single_submission_witness:
  "fst (placeValidatedOrder
          (fixedEnv 1700000000000 FeedFails (balancesReply [(''XXBT'', ''0'')]) orderAccepted)
          (new_KrakenService ''key'' ''secret'', [])
          \<lparr>o_pair = ''XBTUSD'', o_type = Sell, ordertype = Market, volume = ''0.0001'',
           o_price = None\<rparr>)
     = failure ''Insufficient XXBT balance. Adjusting amount to 0.000100'' \<and>
   filter isPlaceOrderCall
     (snd (snd (snd (placeValidatedOrder
          (fixedEnv 1700000000000 FeedFails (balancesReply [(''XXBT'', ''0'')]) orderAccepted)
          (new_KrakenService ''key'' ''secret'', [])
          \<lparr>o_pair = ''XBTUSD'', o_type = Sell, ordertype = Market, volume = ''0.0001'',
           o_price = None\<rparr>)))) = []"
proof -
  let ?E = "fixedEnv 1700000000000 FeedFails (balancesReply [(''XXBT'', ''0'')]) orderAccepted"
  let ?S = "new_KrakenService ''key'' ''secret''"
  let ?O = "\<lparr>o_pair = ''XBTUSD'', o_type = Sell, ordertype = Market, volume = ''0.0001'',
             o_price = None\<rparr>"
  let ?bals = "[(''XXBT'', ''0'')]"
  let ?S2 = "?S\<lparr>svcCryptoPrices := fallbackPrices, cachedBalances := ?bals,
                lastBalanceUpdate := 1700000000000\<rparr>"
  let ?calls = "[ReadClock, FetchPrices, ReadClock, InvokeGetBalance ''key'' ''secret'']"
  let ?v = "new_TradeValidator ?bals (Some (svcCryptoPrices (fst (?S2, ?calls))))"
  obtain resp order' w' where run: "placeValidatedOrder ?E (?S, []) ?O = (resp, order', w')"
    by (cases "placeValidatedOrder ?E (?S, []) ?O") auto
  have gb: "getAccountBalance ?E (updateCryptoPricesIfNeeded ?E (?S, [])) = (Inr ?bals, (?S2, ?calls))"
    by code_simp
  have inv: "\<not> isValid (validateTrade ?v (tradeRequestOf ?O (parseFloat (volume ?O))))"
    by code_simp
  have adj: "adjustedAmount (validateTrade ?v (tradeRequestOf ?O (parseFloat (volume ?O))))
               = Some (Fin (1 / 10000))"
    by code_simp
  have reinv: "\<not> isValid (validateTrade ?v (tradeRequestOf ?O (Fin (1 / 10000))))"
    by code_simp
  have msg: "str_or (error (validateTrade ?v (tradeRequestOf ?O (parseFloat (volume ?O)))))
               ''Trade validation failed''
             = ''Insufficient XXBT balance. Adjusting amount to 0.000100''"
    by code_simp
  from placeValidatedOrder_single_submission [OF run] gb inv adj reinv
  have "resp = failure (str_or (error (validateTrade ?v (tradeRequestOf ?O (parseFloat (volume ?O)))))
               ''Trade validation failed'') \<and> w' = (?S2, ?calls)"
    by blast
  with run msg show ?thesis
    by simp
qed

subsection \<open>The price cache\<close>

text \<open>
  Claim C5, as amended. When the feed fails, \<open>initializeCryptoPrices\<close> assigns the fixed
  fallback table (BTC 45000, ETH 2500, XRP 0.6, LTC 100, ADA 0.5, DOT 7, USD 1), but it
  does not mark the cache as fresh: \<open>lastPriceUpdate\<close> keeps its value, since it is
  written only after a successful fetch. The next \<open>updateCryptoPricesIfNeeded\<close> therefore
  fetches again exactly when the clock is more than \<open>priceUpdateInterval\<close> past the last
  successful update (or past \<open>0\<close> when there was none), however recent the failure.
\<close>

theorem initializeCryptoPrices_feed_failure:
  assumes "priceFeed env (calls @ [FetchPrices]) = FeedFails"
  shows "initializeCryptoPrices env (svc, calls) =
           (svc\<lparr>svcCryptoPrices := fallbackPrices\<rparr>, calls @ [FetchPrices]) \<and>
         lastPriceUpdate (fst (initializeCryptoPrices env (svc, calls))) = lastPriceUpdate svc \<and>
         map (map_of (svcCryptoPrices (fst (initializeCryptoPrices env (svc, calls)))))
             [''XXBT'', ''XETH'', ''XXRP'', ''XLTC'', ''ADA'', ''DOT'', ''ZUSD'']
           = [Some (Fin 45000), Some (Fin 2500), Some (Fin (6 / 10)), Some (Fin 100),
              Some (Fin (5 / 10)), Some (Fin 7), Some (Fin 1)] \<and>
         (\<forall>calls'. updateCryptoPricesIfNeeded env (svc\<lparr>svcCryptoPrices := fallbackPrices\<rparr>, calls') =
            (if clock env calls' - lastPriceUpdate svc > priceUpdateInterval svc
             then initializeCryptoPrices env
                    (svc\<lparr>svcCryptoPrices := fallbackPrices\<rparr>, calls' @ [ReadClock])
             else (svc\<lparr>svcCryptoPrices := fallbackPrices\<rparr>, calls' @ [ReadClock])))"
  using assms
  by (simp add: initializeCryptoPrices_def updateCryptoPricesIfNeeded_def Let_def fallbackPrices_def)

theorem initializeCryptoPrices_feed_failure_witness:
  "initializeCryptoPrices (fixedEnv 1700000000000 FeedFails (balancesReply []) orderAccepted)
     (new_KrakenService ''key'' ''secret'', [])
   = ((new_KrakenService ''key'' ''secret'')\<lparr>svcCryptoPrices := fallbackPrices\<rparr>, [FetchPrices])"
proof -
  let ?E = "fixedEnv 1700000000000 FeedFails (balancesReply []) orderAccepted"
  have h: "priceFeed ?E ([] @ [FetchPrices]) = FeedFails"
    by (simp add: fixedEnv_def)
  from initializeCryptoPrices_feed_failure [OF h] show ?thesis
    by simp
qed

theorem feed_failure_not_marked_fresh:
  "lastPriceUpdate (fst (initializeCryptoPrices
        (fixedEnv 1700000000000 FeedFails (balancesReply []) orderAccepted)
        (new_KrakenService ''key'' ''secret'', []))) = 0 \<and>
   snd (updateCryptoPricesIfNeeded
          (fixedEnv 1700000000000 FeedFails (balancesReply []) orderAccepted)
          (initializeCryptoPrices
             (fixedEnv 1700000000000 FeedFails (balancesReply []) orderAccepted)
             (new_KrakenService ''key'' ''secret'', [])))
     = [FetchPrices, ReadClock, FetchPrices]"
  by code_simp

subsection \<open>The balance cache\<close>

lemma getAccountBalance_fetch_ok:
  assumes "\<not> (clock env calls - lastBalanceUpdate svc < balanceUpdateInterval svc \<and>
              cachedBalances svc \<noteq> [])"
    and "getBalanceReply env (calls @ [ReadClock, InvokeGetBalance (apiKey svc) (apiSecret svc)])
           = Resolves None (Some d)"
    and "bal_error d = None \<or> bal_error d = Some []"
    and "bal_result d = Some bals"
  shows "getAccountBalance env (svc, calls) =
           (Inr bals, (svc\<lparr>cachedBalances := bals, lastBalanceUpdate := clock env calls\<rparr>,
                       calls @ [ReadClock, InvokeGetBalance (apiKey svc) (apiSecret svc)]))"
  using assms by (auto simp add: getAccountBalance_def Let_def)

lemma getAccountBalance_cached:
  assumes "clock env calls - lastBalanceUpdate svc < balanceUpdateInterval svc"
    and "cachedBalances svc \<noteq> []"
  shows "getAccountBalance env (svc, calls) = (Inr (cachedBalances svc), (svc, calls @ [ReadClock]))"
  using assms by (simp add: getAccountBalance_def Let_def)

lemma getAccountBalance_invalidated:
  assumes "lastBalanceUpdate svc = 0" and "balanceUpdateInterval svc \<le> clock env calls"
  shows "snd (snd (getAccountBalance env (svc, calls))) =
           calls @ [ReadClock, InvokeGetBalance (apiKey svc) (apiSecret svc)]"
  using assms
  by (auto simp add: getAccountBalance_def Let_def split: invoked.splits option.splits list.splits)

lemma placeOrder_invalidates:
  assumes "placeOrder env w order = (Inr r, w')"
  shows "lastBalanceUpdate (fst w') = 0"
  using assms
  by (auto simp add: placeOrder_def Let_def split: invoked.splits option.splits list.splits)

text \<open>
  Claim C7. Two balance reads: when the first one fetches (the cache was stale or empty)
  and the gateway answers with a non-empty table, a second read within the refresh
  interval is served from the cache, so the two reads make exactly one remote fetch.
  A successful \<open>placeOrder\<close> sets \<open>lastBalanceUpdate\<close> to \<open>0\<close>, and the next balance read
  then fetches from the gateway. The clock is \<open>Date.now()\<close>, milliseconds since 1970, so
  its reading is at least the refresh interval of 30 seconds; this is the one assumption
  on the clock.
\<close>

theorem getAccountBalance_cache_freshness:
  "(\<not> (clock env calls - lastBalanceUpdate svc < balanceUpdateInterval svc \<and>
        cachedBalances svc \<noteq> []) \<and>
    getBalanceReply env (calls @ [ReadClock, InvokeGetBalance (apiKey svc) (apiSecret svc)])
      = Resolves None (Some d) \<and>
    (bal_error d = None \<or> bal_error d = Some []) \<and>
    bal_result d = Some bals \<and> bals \<noteq> [] \<and>
    clock env (calls @ [ReadClock, InvokeGetBalance (apiKey svc) (apiSecret svc)])
      - clock env calls < balanceUpdateInterval svc
    \<longrightarrow> fst (getAccountBalance env (svc, calls)) = Inr bals \<and>
        fst (getAccountBalance env (snd (getAccountBalance env (svc, calls)))) = Inr bals \<and>
        snd (snd (getAccountBalance env (snd (getAccountBalance env (svc, calls))))) =
          calls @ [ReadClock, InvokeGetBalance (apiKey svc) (apiSecret svc), ReadClock]) \<and>
   (\<forall>w order r w'. placeOrder env w order = (Inr r, w') \<longrightarrow>
      lastBalanceUpdate (fst w') = 0 \<and>
      (\<forall>calls'. balanceUpdateInterval (fst w') \<le> clock env calls' \<longrightarrow>
         snd (snd (getAccountBalance env (fst w', calls'))) =
           calls' @ [ReadClock, InvokeGetBalance (apiKey (fst w')) (apiSecret (fst w'))]))"
proof (intro conjI impI allI)
  assume h: "\<not> (clock env calls - lastBalanceUpdate svc < balanceUpdateInterval svc \<and>
        cachedBalances svc \<noteq> []) \<and>
    getBalanceReply env (calls @ [ReadClock, InvokeGetBalance (apiKey svc) (apiSecret svc)])
      = Resolves None (Some d) \<and>
    (bal_error d = None \<or> bal_error d = Some []) \<and>
    bal_result d = Some bals \<and> bals \<noteq> [] \<and>
    clock env (calls @ [ReadClock, InvokeGetBalance (apiKey svc) (apiSecret svc)])
      - clock env calls < balanceUpdateInterval svc"
  let ?calls1 = "calls @ [ReadClock, InvokeGetBalance (apiKey svc) (apiSecret svc)]"
  let ?svc1 = "svc\<lparr>cachedBalances := bals, lastBalanceUpdate := clock env calls\<rparr>"
  have first: "getAccountBalance env (svc, calls) = (Inr bals, (?svc1, ?calls1))"
    using h by (intro getAccountBalance_fetch_ok) auto
  have second: "getAccountBalance env (?svc1, ?calls1) = (Inr bals, (?svc1, ?calls1 @ [ReadClock]))"
    using h getAccountBalance_cached [of env ?calls1 ?svc1] by simp
  show "fst (getAccountBalance env (svc, calls)) = Inr bals"
    using first by simp
  show "fst (getAccountBalance env (snd (getAccountBalance env (svc, calls)))) = Inr bals"
    using first second by simp
  show "snd (snd (getAccountBalance env (snd (getAccountBalance env (svc, calls))))) =
          calls @ [ReadClock, InvokeGetBalance (apiKey svc) (apiSecret svc), ReadClock]"
    using first second by simp
next
  fix w order r w'
  assume "placeOrder env w order = (Inr r, w')"
  then show "lastBalanceUpdate (fst w') = 0"
    by (rule placeOrder_invalidates)
next
  fix w order r w' calls'
  assume p: "placeOrder env w order = (Inr r, w')"
    and c: "balanceUpdateInterval (fst w') \<le> clock env calls'"
  from placeOrder_invalidates [OF p] c
  show "snd (snd (getAccountBalance env (fst w', calls'))) =
          calls' @ [ReadClock, InvokeGetBalance (apiKey (fst w')) (apiSecret (fst w'))]"
    using getAccountBalance_invalidated [of "fst w'" env calls'] by simp
qed

theorem getAccountBalance_cache_freshness_witness:
  "snd (snd (getAccountBalance
        (fixedEnv 1700000000000 FeedFails (balancesReply [(''ZUSD'', ''1000.00'')]) orderAccepted)
        (snd (getAccountBalance
           (fixedEnv 1700000000000 FeedFails (balancesReply [(''ZUSD'', ''1000.00'')]) orderAccepted)
           (new_KrakenService ''key'' ''secret'', [])))))
     = [ReadClock, InvokeGetBalance ''key'' ''secret'', ReadClock] \<and>
   snd (snd (getAccountBalance
        (fixedEnv 1700000000000 FeedFails (balancesReply [(''ZUSD'', ''1000.00'')]) orderAccepted)
        (fst (snd (placeOrder
           (fixedEnv 1700000000000 FeedFails (balancesReply [(''ZUSD'', ''1000.00'')]) orderAccepted)
           ((new_KrakenService ''key'' ''secret'')
              \<lparr>cachedBalances := [(''ZUSD'', ''1000.00'')], lastBalanceUpdate := 1699999999000\<rparr>, [])
           \<lparr>o_pair = ''XBTUSD'', o_type = Buy, ordertype = Market, volume = ''0.001'',
            o_price = None\<rparr>)), [])))
     = [ReadClock, InvokeGetBalance ''key'' ''secret'']"
proof -
  let ?bals = "[(''ZUSD'', ''1000.00'')]"
  let ?E = "fixedEnv 1700000000000 FeedFails (balancesReply ?bals) orderAccepted"
  let ?S = "new_KrakenService ''key'' ''secret''"
  let ?S1 = "?S\<lparr>cachedBalances := ?bals, lastBalanceUpdate := 1699999999000\<rparr>"
  let ?O = "\<lparr>o_pair = ''XBTUSD'', o_type = Buy, ordertype = Market, volume = ''0.001'',
             o_price = None\<rparr>"
  let ?d = "\<lparr>bal_error = None, bal_result = Some ?bals\<rparr>"
  let ?r = "\<lparr>resp_error = None,
             resp_result = Some \<lparr>descr_order = ''order'', txid = [''TX1'']\<rparr>\<rparr>"
  note T = getAccountBalance_cache_freshness [of ?E "[]" ?S ?d ?bals]
  have pre: "\<not> (clock ?E [] - lastBalanceUpdate ?S < balanceUpdateInterval ?S \<and>
                 cachedBalances ?S \<noteq> []) \<and>
      getBalanceReply ?E ([] @ [ReadClock, InvokeGetBalance (apiKey ?S) (apiSecret ?S)])
        = Resolves None (Some ?d) \<and>
      (bal_error ?d = None \<or> bal_error ?d = Some []) \<and>
      bal_result ?d = Some ?bals \<and> ?bals \<noteq> [] \<and>
      clock ?E ([] @ [ReadClock, InvokeGetBalance (apiKey ?S) (apiSecret ?S)]) - clock ?E []
        < balanceUpdateInterval ?S"
    by (simp add: fixedEnv_def balancesReply_def new_KrakenService_def)
  have one: "snd (snd (getAccountBalance ?E (snd (getAccountBalance ?E (?S, []))))) =
      [] @ [ReadClock, InvokeGetBalance (apiKey ?S) (apiSecret ?S), ReadClock]"
    using T pre by blast
  have placed: "placeOrder ?E (?S1, []) ?O =
      (Inr ?r, (?S1\<lparr>lastBalanceUpdate := 0\<rparr>, [InvokePlaceOrder ''key'' ''secret'' ?O]))"
    by code_simp
  have late: "balanceUpdateInterval (fst (?S1\<lparr>lastBalanceUpdate := 0\<rparr>,
                  [InvokePlaceOrder ''key'' ''secret'' ?O])) \<le> clock ?E []"
    by (simp add: fixedEnv_def new_KrakenService_def)
  have again: "snd (snd (getAccountBalance ?E (fst (?S1\<lparr>lastBalanceUpdate := 0\<rparr>,
                  [InvokePlaceOrder ''key'' ''secret'' ?O]), []))) =
      [] @ [ReadClock,
            InvokeGetBalance (apiKey (fst (?S1\<lparr>lastBalanceUpdate := 0\<rparr>,
                  [InvokePlaceOrder ''key'' ''secret'' ?O])))
              (apiSecret (fst (?S1\<lparr>lastBalanceUpdate := 0\<rparr>,
                  [InvokePlaceOrder ''key'' ''secret'' ?O])))]"
    using T placed late by blast
  from one again placed show ?thesis
    by (simp add: new_KrakenService_def)
qed

subsection \<open>The order object\<close>

text \<open>
  Claim C8, as amended. The claim that the submitted order is never changed in place
  fails: when an adjusted amount is applied, \<open>placeValidatedOrder\<close> assigns its decimal
  string to the \<open>volume\<close> field of the caller's order object, before the adjusted amount
  is validated again. What holds: the requests handed to the validator are fresh values
  built from the order; of the order's fields only \<open>volume\<close> can change; it is
  overwritten with the string of the adjusted amount exactly when the first verdict is
  invalid and carries a truthy, positive \<open>adjustedAmount\<close>, and the order is left as it
  was in every other case.
\<close>

theorem placeValidatedOrder_order_frame:
  assumes run: "placeValidatedOrder env w order = (resp, order', w')"
  shows "(\<exists>x. order' = order\<lparr>volume := x\<rparr>) \<and>
     (\<forall>e w2. getAccountBalance env (updateCryptoPricesIfNeeded env w) = (Inl e, w2)
        \<longrightarrow> order' = order) \<and>
     (\<forall>bals w2. getAccountBalance env (updateCryptoPricesIfNeeded env w) = (Inr bals, w2)
        \<longrightarrow> order' =
           (let validation = validateTrade
                  (new_TradeValidator bals (Some (svcCryptoPrices (fst w2))))
                  (tradeRequestOf order (parseFloat (volume order)))
            in case adjustedAmount validation of
                 None \<Rightarrow> order
               | Some adj \<Rightarrow>
                   if \<not> isValid validation \<and> truthy adj \<and> jgt adj (Fin 0)
                   then order\<lparr>volume := toString adj\<rparr> else order))"
proof -
  let ?w1 = "updateCryptoPricesIfNeeded env w"
  obtain r w2 where gb: "getAccountBalance env ?w1 = (r, w2)"
    by (cases "getAccountBalance env ?w1") auto
  have same: "\<exists>x. order = order\<lparr>volume := x\<rparr>"
    by (rule exI[of _ "volume order"]) simp
  show ?thesis
  proof (cases r)
    case (Inl e)
    with run gb have "order' = order"
      by (simp add: placeValidatedOrder_def)
    with gb Inl same show ?thesis
      by auto
  next
    case (Inr bals)
    let ?val = "validateTrade (new_TradeValidator bals (Some (svcCryptoPrices (fst w2))))
                  (tradeRequestOf order (parseFloat (volume order)))"
    have "order' = (case adjustedAmount ?val of
                 None \<Rightarrow> order
               | Some adj \<Rightarrow>
                   if \<not> isValid ?val \<and> truthy adj \<and> jgt adj (Fin 0)
                   then order\<lparr>volume := toString adj\<rparr> else order)"
      using run gb Inr
      by (auto simp add: placeValidatedOrder_def Let_def dest: submitOrder_order
          split: option.splits if_splits)
    moreover from this same have "\<exists>x. order' = order\<lparr>volume := x\<rparr>"
      by (cases "adjustedAmount ?val") (auto split: if_splits)
    ultimately show ?thesis
      using gb Inr by (simp add: Let_def del: split_paired_All)
  qed
qed

theorem placeValidatedOrder_order_frame_witness:
  "fst (snd (placeValidatedOrder
      (fixedEnv 1700000000000 FeedFails (balancesReply [(''ZUSD'', ''1000.00'')]) orderAccepted)
      (new_KrakenService ''key'' ''secret'', [])
      \<lparr>o_pair = ''XBTUSD'', o_type = Buy, ordertype = Market, volume = ''0.00005'',
       o_price = None\<rparr>))
   = \<lparr>o_pair = ''XBTUSD'', o_type = Buy, ordertype = Market, volume = ''0.0001'',
      o_price = None\<rparr>"
proof -
  let ?bals = "[(''ZUSD'', ''1000.00'')]"
  let ?E = "fixedEnv 1700000000000 FeedFails (balancesReply ?bals) orderAccepted"
  let ?S = "new_KrakenService ''key'' ''secret''"
  let ?O = "\<lparr>o_pair = ''XBTUSD'', o_type = Buy, ordertype = Market, volume = ''0.00005'',
             o_price = None\<rparr>"
  let ?S2 = "?S\<lparr>svcCryptoPrices := fallbackPrices, cachedBalances := ?bals,
                lastBalanceUpdate := 1700000000000\<rparr>"
  let ?calls = "[ReadClock, FetchPrices, ReadClock, InvokeGetBalance ''key'' ''secret'']"
  let ?val = "validateTrade (new_TradeValidator ?bals (Some (svcCryptoPrices (fst (?S2, ?calls)))))
                (tradeRequestOf ?O (parseFloat (volume ?O)))"
  obtain resp order' w' where run: "placeValidatedOrder ?E (?S, []) ?O = (resp, order', w')"
    by (cases "placeValidatedOrder ?E (?S, []) ?O") auto
  have gb: "getAccountBalance ?E (updateCryptoPricesIfNeeded ?E (?S, [])) = (Inr ?bals, (?S2, ?calls))"
    by code_simp
  have inv: "\<not> isValid ?val"
    by code_simp
  have adj: "adjustedAmount ?val = Some (Fin (1 / 10000))"
    by code_simp
  have str: "toString (Fin (1 / 10000)) = ''0.0001''"
    by code_simp
  from placeValidatedOrder_order_frame [OF run] gb
  have "order' = (let validation = ?val
            in case adjustedAmount validation of
                 None \<Rightarrow> ?O
               | Some adj \<Rightarrow>
                   if \<not> isValid validation \<and> truthy adj \<and> jgt adj (Fin 0)
                   then ?O\<lparr>volume := toString adj\<rparr> else ?O)"
    by blast
  moreover have "truthy (Fin (1 / 10000))" "jlt (Fin 0) (Fin (1 / 10000))"
    by code_simp+
  ultimately have "order' = ?O\<lparr>volume := ''0.0001''\<rparr>"
    using inv adj str by (simp add: Let_def jgt_def)
  with run show ?thesis
    by simp
qed

theorem placeValidatedOrder_overwrites_volume:
  "volume (fst (snd (placeValidatedOrder
      (fixedEnv 1700000000000 FeedFails (balancesReply [(''XXBT'', ''0.02'')]) orderAccepted)
      (new_KrakenService ''key'' ''secret'', [])
      \<lparr>o_pair = ''XBTUSD'', o_type = Sell, ordertype = Market, volume = ''0.05'',
       o_price = None\<rparr>))) = ''0.019'' \<and>
   fst (snd (placeValidatedOrder
      (fixedEnv 1700000000000 FeedFails (balancesReply [(''XXBT'', ''0.02'')]) orderAccepted)
      (new_KrakenService ''key'' ''secret'', [])
      \<lparr>o_pair = ''XBTUSD'', o_type = Sell, ordertype = Market, volume = ''0.05'',
       o_price = None\<rparr>))
   \<noteq> \<lparr>o_pair = ''XBTUSD'', o_type = Sell, ordertype = Market, volume = ''0.05'',
       o_price = None\<rparr>"
  by code_simp

subsection \<open>Errors reported by the gateway\<close>

text \<open>
  Claim C9, as amended. The claim that a classified rejection carries the gateway's raw
  message fails: \<open>placeOrder\<close> classifies the first error string by the phrases it contains
  and, on a match, reports a fixed message in place of the raw text (for
  \<open>Insufficient funds\<close> the message \<open>Insufficient funds for this trade\<close>). What holds: when
  the gateway answers a submission with a non-empty error list, \<open>placeOrder\<close> throws an
  error whose message is the fixed message of the first phrase found in the first error
  string, and the executor returns that message as its error; an error string that
  contains none of the phrases is returned verbatim.
\<close>

theorem placeOrder_error_classification:
  assumes "placeOrderReply env (calls @ [InvokePlaceOrder (apiKey svc) (apiSecret svc) order])
             = Resolves None (Some d)"
    and "resp_error d = Some (e # es)"
  shows "fst (placeOrder env (svc, calls) order) = Inl (JsError (orderErrorMessage e)) \<and>
         fst (submitOrder env (svc, calls) order) = failure (orderErrorMessage e) \<and>
         (str_includes e ''Insufficient funds'' \<longrightarrow>
            orderErrorMessage e = ''Insufficient funds for this trade'') \<and>
         (\<not> str_includes e ''Insufficient funds'' \<and> \<not> str_includes e ''Invalid arguments'' \<and>
          \<not> str_includes e ''Order minimum not met'' \<and> \<not> str_includes e ''Unknown asset pair'' \<and>
          \<not> str_includes e ''Invalid price'' \<longrightarrow> orderErrorMessage e = e)"
proof -
  have p: "placeOrder env (svc, calls) order =
             (Inl (JsError (orderErrorMessage e)),
              (svc, calls @ [InvokePlaceOrder (apiKey svc) (apiSecret svc) order]))"
    using assms by (simp add: placeOrder_def Let_def)
  then have "fst (submitOrder env (svc, calls) order) = failure (orderErrorMessage e)"
    by (simp add: submitOrder_def)
  with p show ?thesis
    by (simp add: orderErrorMessage_def)
qed

theorem placeOrder_error_classification_witness:
  "fst (submitOrder
     (fixedEnv 1700000000000 FeedFails (balancesReply []) (orderRefused [''EGeneral:Internal error'']))
     (new_KrakenService ''key'' ''secret'', [])
     \<lparr>o_pair = ''XBTUSD'', o_type = Sell, ordertype = Market, volume = ''0.01'', o_price = None\<rparr>)
   = failure ''EGeneral:Internal error''"
proof -
  let ?E = "fixedEnv 1700000000000 FeedFails (balancesReply [])
              (orderRefused [''EGeneral:Internal error''])"
  let ?S = "new_KrakenService ''key'' ''secret''"
  let ?O = "\<lparr>o_pair = ''XBTUSD'', o_type = Sell, ordertype = Market, volume = ''0.01'',
             o_price = None\<rparr>"
  let ?d = "\<lparr>resp_error = Some [''EGeneral:Internal error''], resp_result = None\<rparr>"
  have h1: "placeOrderReply ?E ([] @ [InvokePlaceOrder (apiKey ?S) (apiSecret ?S) ?O])
              = Resolves None (Some ?d)"
    by (simp add: fixedEnv_def orderRefused_def)
  have h2: "resp_error ?d = Some (''EGeneral:Internal error'' # [])"
    by simp
  have un: "\<not> str_includes ''EGeneral:Internal error'' ''Insufficient funds'' \<and>
            \<not> str_includes ''EGeneral:Internal error'' ''Invalid arguments'' \<and>
            \<not> str_includes ''EGeneral:Internal error'' ''Order minimum not met'' \<and>
            \<not> str_includes ''EGeneral:Internal error'' ''Unknown asset pair'' \<and>
            \<not> str_includes ''EGeneral:Internal error'' ''Invalid price''"
    by code_simp
  from placeOrder_error_classification [OF h1 h2] un show ?thesis
    by simp
qed

theorem placeOrder_replaces_raw_message:
  "fst (placeValidatedOrder
     (fixedEnv 1700000000000 FeedFails (balancesReply [(''XXBT'', ''0.02'')])
        (orderRefused [''Insufficient funds'']))
     (new_KrakenService ''key'' ''secret'', [])
     \<lparr>o_pair = ''XBTUSD'', o_type = Sell, ordertype = Market, volume = ''0.01'', o_price = None\<rparr>)
   = \<lparr>resp_error = Some [''Insufficient funds for this trade''], resp_result = None\<rparr> \<and>
   resp_error (fst (placeValidatedOrder
     (fixedEnv 1700000000000 FeedFails (balancesReply [(''XXBT'', ''0.02'')])
        (orderRefused [''Insufficient funds'']))
     (new_KrakenService ''key'' ''secret'', [])
     \<lparr>o_pair = ''XBTUSD'', o_type = Sell, ordertype = Market, volume = ''0.01'', o_price = None\<rparr>))
   \<noteq> Some [''Insufficient funds'']"
  by code_simp

end
